theory Spec2Isabelle
  imports Main "HOL-Library.Word"
begin

section \<open>The database handle: class Database\<close>

text \<open>
  \<^verbatim>\<open>framework/sql/database.h\<close> declares four classes: \<open>Database\<close> (the handle a
  driver derives from), \<open>DBResult\<close>, \<open>DBInsert\<close> and \<open>DBTransaction\<close>. Member
  functions become functions that take the object and return it next to the value the
  C++ function returns; a \<open>void\<close> function returns \<open>()\<close>.

  \<open>ticks_t\<close> and \<open>Fw::DatabaseEngine\<close> are declared in headers that are not part of
  the file. \<open>ticks_t\<close> is taken as a 64-bit integer. Of the enumeration only the
  enumerator \<open>DatabaseNone\<close> occurs in the file; every other enumerator is
  \<open>DatabaseDriver n\<close>.
\<close>

type_synonym ticks_t = "64 word"

datatype DatabaseEngine = DatabaseNone | DatabaseDriver nat


text \<open>
  The data members of \<open>Database\<close>. A driver class derived from \<open>Database\<close> is an
  extension of the record, so the member functions are stated over
  \<open>'x Database_scheme\<close>.
\<close>

record Database =
  m_use :: ticks_t
  m_connected :: bool

text \<open>
  \<^verbatim>\<open>Database(): m_connected(false) {}\<close> leaves \<open>m_use\<close> uninitialised: its
  indeterminate value is the parameter \<open>u\<close>.
\<close>

definition Database_ctor :: "ticks_t \<Rightarrow> Database" where
  "Database_ctor u = \<lparr>m_use = u, m_connected = False\<rparr>"

text \<open>\<^verbatim>\<open>virtual ~Database() {m_connected = false;}\<close>\<close>

definition Database_dtor :: "'x Database_scheme \<Rightarrow> 'x Database_scheme" where
  "Database_dtor d = d\<lparr>m_connected := False\<rparr>"


text \<open>
  \<^verbatim>\<open>virtual void connect(const std::string& host, const std::string& user,
      const std::string& pass, const std::string& db, uint16 port,
      const std::string& unix_socket = "") {}\<close>
\<close>

definition Database_connect ::
  "string \<Rightarrow> string \<Rightarrow> string \<Rightarrow> string \<Rightarrow> 16 word \<Rightarrow> string \<Rightarrow>
     'x Database_scheme \<Rightarrow> unit \<times> 'x Database_scheme" where
  "Database_connect host user pass db port unix_socket d = ((), d)"

text \<open>
  \<^verbatim>\<open>virtual bool beginTransaction() {return false;}\<close>
  \<^verbatim>\<open>virtual bool rollback() {return false;}\<close>
  \<^verbatim>\<open>virtual bool commit() {return false;}\<close>
\<close>

definition Database_beginTransaction :: "'x Database_scheme \<Rightarrow> bool \<times> 'x Database_scheme" where
  "Database_beginTransaction d = (False, d)"

definition Database_rollback :: "'x Database_scheme \<Rightarrow> bool \<times> 'x Database_scheme" where
  "Database_rollback d = (False, d)"

definition Database_commit :: "'x Database_scheme \<Rightarrow> bool \<times> 'x Database_scheme" where
  "Database_commit d = (False, d)"

text \<open>\<^verbatim>\<open>virtual bool executeQuery(const std::string& query) {return false;}\<close>\<close>

definition Database_executeQuery ::
  "string \<Rightarrow> 'x Database_scheme \<Rightarrow> bool \<times> 'x Database_scheme" where
  "Database_executeQuery query d = (False, d)"


text \<open>
  \<^verbatim>\<open>virtual std::string escapeString(const std::string&) {return "''";}\<close>
  \<^verbatim>\<open>virtual std::string escapeBlob(const char*, uint32) {return "''";}\<close>
  The returned literal is two apostrophes (character \<open>0x27\<close>). The binary stream
  behind the \<open>const char*\<close> is a list of bytes.
\<close>

definition Database_escapeString ::
  "string \<Rightarrow> 'x Database_scheme \<Rightarrow> string \<times> 'x Database_scheme" where
  "Database_escapeString s d = ([CHR 0x27, CHR 0x27], d)"

definition Database_escapeBlob ::
  "8 word list \<Rightarrow> 32 word \<Rightarrow> 'x Database_scheme \<Rightarrow> string \<times> 'x Database_scheme" where
  "Database_escapeBlob s len d = ([CHR 0x27, CHR 0x27], d)"





text \<open>
  \<^verbatim>\<open>bool isConnected() const {return m_connected;}\<close>
  \<^verbatim>\<open>void setConnected(bool connected) { m_connected = connected; }\<close>
\<close>

definition isConnected :: "'x Database_scheme \<Rightarrow> bool" where
  "isConnected d = m_connected d"

definition setConnected :: "bool \<Rightarrow> 'x Database_scheme \<Rightarrow> 'x Database_scheme" where
  "setConnected connected d = d\<lparr>m_connected := connected\<rparr>"



section \<open>Calls through a DatabasePtr\<close>

text \<open>
  \<open>DBTransaction\<close> and \<open>DBInsert\<close> hold a \<open>DatabasePtr m_db\<close> and call virtual
  member functions through it. The dynamic class of the object behind the pointer fixes
  which bodies run: it is the table \<open>vt\<close> of the virtual functions that are called
  through a pointer, over the object type \<open>'d\<close> of that class.
\<close>

record 'd Database_vtable =
  v_beginTransaction :: "'d \<Rightarrow> bool \<times> 'd"
  v_rollback :: "'d \<Rightarrow> bool \<times> 'd"
  v_commit :: "'d \<Rightarrow> bool \<times> 'd"
  v_executeQuery :: "string \<Rightarrow> 'd \<Rightarrow> bool \<times> 'd"

text \<open>The table of class \<open>Database\<close> itself and of a driver that overrides nothing.\<close>

definition Database_default_vtable :: "('x Database_scheme) Database_vtable" where
  "Database_default_vtable =
     \<lparr>v_beginTransaction = Database_beginTransaction,
      v_rollback = Database_rollback,
      v_commit = Database_commit,
      v_executeQuery = Database_executeQuery\<rparr>"

text \<open>
  The object behind the pointer, together with the sequence of calls that were made
  through the pointer, oldest first. The sequence is what "the guard invokes rollback
  exactly once" and "no statement is issued" are statements about.
\<close>

datatype db_call = CallBeginTransaction | CallRollback | CallCommit | CallExecuteQuery string

record 'd dbconn =
  obj :: 'd
  calls :: "db_call list"

definition invoke :: "db_call \<Rightarrow> ('d \<Rightarrow> bool \<times> 'd) \<Rightarrow> 'd dbconn \<Rightarrow> bool \<times> 'd dbconn" where
  "invoke c body h = (fst (body (obj h)), \<lparr>obj = snd (body (obj h)), calls = calls h @ [c]\<rparr>)"

text \<open>
  \<^verbatim>\<open>m_db->beginTransaction()\<close>, \<^verbatim>\<open>m_db->rollback()\<close>, \<^verbatim>\<open>m_db->commit()\<close>,
  \<^verbatim>\<open>m_db->executeQuery(query)\<close>
\<close>

definition db_beginTransaction :: "'d Database_vtable \<Rightarrow> 'd dbconn \<Rightarrow> bool \<times> 'd dbconn" where
  "db_beginTransaction vt h = invoke CallBeginTransaction (v_beginTransaction vt) h"

definition db_rollback :: "'d Database_vtable \<Rightarrow> 'd dbconn \<Rightarrow> bool \<times> 'd dbconn" where
  "db_rollback vt h = invoke CallRollback (v_rollback vt) h"

definition db_commit :: "'d Database_vtable \<Rightarrow> 'd dbconn \<Rightarrow> bool \<times> 'd dbconn" where
  "db_commit vt h = invoke CallCommit (v_commit vt) h"

definition db_executeQuery ::
  "'d Database_vtable \<Rightarrow> string \<Rightarrow> 'd dbconn \<Rightarrow> bool \<times> 'd dbconn" where
  "db_executeQuery vt query h = invoke (CallExecuteQuery query) (v_executeQuery vt query) h"

section \<open>The transaction guard: class DBTransaction\<close>

datatype TransactionStates_t = STATE_FRESH | STATE_READY | STATE_DONE

text \<open>
  The guard's own data member is \<open>m_state\<close>; the object its \<open>m_db\<close> points to is the
  \<open>dbconn\<close> passed to every member function.
\<close>

record DBTransaction =
  m_state :: TransactionStates_t

text \<open>
  \<^verbatim>\<open>DBTransaction(DatabasePtr database) { m_db = database; m_state = STATE_FRESH; }\<close>
\<close>

definition DBTransaction_ctor :: DBTransaction where
  "DBTransaction_ctor = \<lparr>m_state = STATE_FRESH\<rparr>"

text \<open>
  \<^verbatim>\<open>~DBTransaction() { if(m_state == STATE_READY) m_db->rollback(); }\<close>
  The value \<open>rollback\<close> returns is discarded.
\<close>

definition DBTransaction_dtor ::
  "'d Database_vtable \<Rightarrow> DBTransaction \<Rightarrow> 'd dbconn \<Rightarrow> 'd dbconn" where
  "DBTransaction_dtor vt t h =
     (if m_state t = STATE_READY then snd (db_rollback vt h) else h)"

text \<open>
  \<^verbatim>\<open>bool begin() { m_state = STATE_READY; return m_db->beginTransaction(); }\<close>
\<close>

definition DBTransaction_begin ::
  "'d Database_vtable \<Rightarrow> DBTransaction \<Rightarrow> 'd dbconn \<Rightarrow> bool \<times> DBTransaction \<times> 'd dbconn" where
  "DBTransaction_begin vt t h =
     (case db_beginTransaction vt h of
        (r, h') \<Rightarrow> (r, t\<lparr>m_state := STATE_READY\<rparr>, h'))"

text \<open>
  \<^verbatim>\<open>bool commit() {
      if(m_state != STATE_READY) return false;
      m_state = STATE_DONE;
      return m_db->commit();
  }\<close>
\<close>

definition DBTransaction_commit ::
  "'d Database_vtable \<Rightarrow> DBTransaction \<Rightarrow> 'd dbconn \<Rightarrow> bool \<times> DBTransaction \<times> 'd dbconn" where
  "DBTransaction_commit vt t h =
     (if m_state t \<noteq> STATE_READY then (False, t, h)
      else (case db_commit vt h of
              (r, h') \<Rightarrow> (r, t\<lparr>m_state := STATE_DONE\<rparr>, h')))"

text \<open>
  A guard's life as its owner sees it: construction, any sequence of calls of its two
  public member functions, destruction. The values the calls return are the owner's to
  look at and do not change what the guard does next.
\<close>

datatype guard_call = Begin | Commit

fun DBTransaction_calls ::
  "'d Database_vtable \<Rightarrow> guard_call list \<Rightarrow> DBTransaction \<Rightarrow> 'd dbconn \<Rightarrow> DBTransaction \<times> 'd dbconn" where
  "DBTransaction_calls vt [] t h = (t, h)"
| "DBTransaction_calls vt (Begin # cs) t h =
     DBTransaction_calls vt cs (fst (snd (DBTransaction_begin vt t h)))
       (snd (snd (DBTransaction_begin vt t h)))"
| "DBTransaction_calls vt (Commit # cs) t h =
     DBTransaction_calls vt cs (fst (snd (DBTransaction_commit vt t h)))
       (snd (snd (DBTransaction_commit vt t h)))"

definition DBTransaction_lifetime ::
  "'d Database_vtable \<Rightarrow> guard_call list \<Rightarrow> 'd dbconn \<Rightarrow> 'd dbconn" where
  "DBTransaction_lifetime vt cs h =
     DBTransaction_dtor vt (fst (DBTransaction_calls vt cs DBTransaction_ctor h))
       (snd (DBTransaction_calls vt cs DBTransaction_ctor h))"

section \<open>The insert batcher: class DBInsert\<close>

text \<open>
  The header gives the data members and the constructor of \<open>DBInsert\<close> and declares
  \<open>setQuery\<close>, \<open>addRow\<close> and \<open>execute\<close>, whose bodies are in a file that is not
  at hand.
\<close>

record DBInsert =
  m_rows :: "32 word"
  m_query :: string
  m_buf :: string

text \<open>
  \<^verbatim>\<open>DBInsert(DatabasePtr db): m_db(db), m_rows(0) {}\<close>; the two strings are
  default-constructed, that is empty.
\<close>

definition DBInsert_ctor :: DBInsert where
  "DBInsert_ctor = \<lparr>m_rows = 0, m_query = [], m_buf = []\<rparr>"

text \<open>
  Modelled from the spec: the body of \<open>DBInsert::setQuery\<close> is missing. The
  specification calls it \<open>setTemplate\<close>: it "sets the shared prefix [...]; resets
  buffer and row count".
\<close>

definition DBInsert_setQuery :: "string \<Rightarrow> DBInsert \<Rightarrow> DBInsert" where
  "DBInsert_setQuery query ins = ins\<lparr>m_query := query, m_buf := [], m_rows := 0\<rparr>"

text \<open>
  Modelled from the spec: the body of \<open>DBInsert::execute\<close> is missing. The
  specification says that it "flushes any remaining buffered rows as a final statement",
  that "row count and buffer are reset together atomically on flush", that called "with
  zero accumulated rows" it "performs no statement issuance and reports success", and
  that it "leaves the batcher in the same reusable state as right after
  \<open>setTemplate\<close>". The statement of a flush is the template followed by the buffer,
  and the result of a flush is the result of \<open>executeQuery\<close>.
\<close>

definition DBInsert_execute ::
  "'d Database_vtable \<Rightarrow> DBInsert \<Rightarrow> 'd dbconn \<Rightarrow> bool \<times> DBInsert \<times> 'd dbconn" where
  "DBInsert_execute vt ins h =
     (if m_rows ins = 0 then (True, ins, h)
      else (case db_executeQuery vt (m_query ins @ m_buf ins) h of
              (r, h') \<Rightarrow> (r, ins\<lparr>m_rows := 0, m_buf := []\<rparr>, h')))"

section \<open>Calls through the pointer, step by step\<close>

lemma invoke_result: "fst (invoke c body h) = fst (body (obj h))"
  by (simp add: invoke_def)

lemma invoke_obj: "obj (snd (invoke c body h)) = snd (body (obj h))"
  by (simp add: invoke_def)

lemma invoke_calls: "calls (snd (invoke c body h)) = calls h @ [c]"
  by (simp add: invoke_def)

lemma dtor_calls:
  "calls (DBTransaction_dtor vt t h) =
     (if m_state t = STATE_READY then calls h @ [CallRollback] else calls h)"
  by (simp add: DBTransaction_dtor_def db_rollback_def invoke_calls)

lemma begin_state: "m_state (fst (snd (DBTransaction_begin vt t h))) = STATE_READY"
  by (simp add: DBTransaction_begin_def split: prod.splits)

lemma begin_calls:
  "calls (snd (snd (DBTransaction_begin vt t h))) = calls h @ [CallBeginTransaction]"
  by (simp add: DBTransaction_begin_def db_beginTransaction_def invoke_def)

lemma commit_state_not_fresh:
  "m_state t \<noteq> STATE_FRESH \<Longrightarrow>
     m_state (fst (snd (DBTransaction_commit vt t h))) \<noteq> STATE_FRESH"
  by (simp add: DBTransaction_commit_def split: prod.splits)

text \<open>
  A sequence of \<open>begin()\<close> calls alone makes one \<open>beginTransaction()\<close> call each on
  the handle and leaves the guard in \<open>STATE_READY\<close> as soon as it is not empty.
\<close>

lemma calls_only_begin:
  "Commit \<notin> set cs \<Longrightarrow>
     calls (snd (DBTransaction_calls vt cs t h)) =
       calls h @ replicate (length cs) CallBeginTransaction
     \<and> m_state (fst (DBTransaction_calls vt cs t h)) =
       (if cs = [] then m_state t else STATE_READY)"
proof (induction cs arbitrary: t h)
  case Nil
  then show ?case by simp
next
  case (Cons c cs)
  then have c: "c = Begin" and rest: "Commit \<notin> set cs"
    by (cases c; simp)+
  from Cons.IH [OF rest] show ?case
    by (simp add: c begin_state begin_calls replicate_append_same)
qed

text \<open>No member function assigns \<open>STATE_FRESH\<close>: only the constructor does.\<close>

lemma calls_never_fresh:
  "m_state t \<noteq> STATE_FRESH \<Longrightarrow> m_state (fst (DBTransaction_calls vt cs t h)) \<noteq> STATE_FRESH"
proof (induction cs arbitrary: t h)
  case Nil
  then show ?case by simp
next
  case (Cons c cs)
  show ?case
  proof (cases c)
    case Begin
    have "m_state (fst (snd (DBTransaction_begin vt t h))) \<noteq> STATE_FRESH"
      by (simp add: begin_state)
    then show ?thesis using Begin Cons.IH by simp
  next
    case Commit
    have "m_state (fst (snd (DBTransaction_commit vt t h))) \<noteq> STATE_FRESH"
      using Cons.prems by (rule commit_state_not_fresh)
    then show ?thesis using Commit Cons.IH by simp
  qed
qed

section \<open>The transaction guard\<close>

text \<open>
  C1, as the specification states it: when \<open>commit()\<close> is called on an Active guard and
  the handle's \<open>commit()\<close> returns false, the guard stays Active, so that destroying it
  still calls \<open>rollback()\<close>. The code assigns \<open>STATE_DONE\<close> before it calls the
  handle: on a handle whose \<open>commit()\<close> returns false (the default one), the guard is
  Done after the failed commit and its destructor makes no call at all.
\<close>

theorem failed_commit_counterexample:
  "DBTransaction_commit Database_default_vtable \<lparr>m_state = STATE_READY\<rparr>
      \<lparr>obj = Database_ctor 0, calls = [CallBeginTransaction]\<rparr> =
     (False, \<lparr>m_state = STATE_DONE\<rparr>,
      \<lparr>obj = Database_ctor 0, calls = [CallBeginTransaction, CallCommit]\<rparr>)
   \<and> DBTransaction_dtor Database_default_vtable \<lparr>m_state = STATE_DONE\<rparr>
      \<lparr>obj = Database_ctor 0, calls = [CallBeginTransaction, CallCommit]\<rparr> =
     \<lparr>obj = Database_ctor 0, calls = [CallBeginTransaction, CallCommit]\<rparr>"
  by (simp add: DBTransaction_commit_def DBTransaction_dtor_def db_commit_def invoke_def
      Database_default_vtable_def Database_commit_def)

text \<open>
  C1, amended: when \<open>commit()\<close> is called on an Active guard, the guard moves to Done
  whatever the handle's \<open>commit()\<close> returns; \<open>commit()\<close> returns the handle's
  result after that one call on the handle, and destroying the guard afterwards calls
  nothing on the handle, \<open>rollback()\<close> included.
\<close>

theorem commit_from_active_is_done:
  assumes "m_state t = STATE_READY"
  shows "m_state (fst (snd (DBTransaction_commit vt t h))) = STATE_DONE
     \<and> fst (DBTransaction_commit vt t h) = fst (v_commit vt (obj h))
     \<and> calls (snd (snd (DBTransaction_commit vt t h))) = calls h @ [CallCommit]
     \<and> DBTransaction_dtor vt (fst (snd (DBTransaction_commit vt t h)))
           (snd (snd (DBTransaction_commit vt t h))) = snd (snd (DBTransaction_commit vt t h))"
  using assms
  by (simp add: DBTransaction_commit_def DBTransaction_dtor_def db_commit_def invoke_def)

theorem commit_from_active_is_done_witness:
  "m_state \<lparr>m_state = STATE_READY\<rparr> = STATE_READY
   \<and> m_state (fst (snd (DBTransaction_commit Database_default_vtable \<lparr>m_state = STATE_READY\<rparr>
         \<lparr>obj = Database_ctor 0, calls = []\<rparr>))) = STATE_DONE
   \<and> fst (DBTransaction_commit Database_default_vtable \<lparr>m_state = STATE_READY\<rparr>
         \<lparr>obj = Database_ctor 0, calls = []\<rparr>) = False
   \<and> calls (DBTransaction_dtor Database_default_vtable
         (fst (snd (DBTransaction_commit Database_default_vtable \<lparr>m_state = STATE_READY\<rparr>
            \<lparr>obj = Database_ctor 0, calls = []\<rparr>)))
         (snd (snd (DBTransaction_commit Database_default_vtable \<lparr>m_state = STATE_READY\<rparr>
            \<lparr>obj = Database_ctor 0, calls = []\<rparr>)))) = [CallCommit]"
  using commit_from_active_is_done
    [of "\<lparr>m_state = STATE_READY\<rparr>" Database_default_vtable
        "\<lparr>obj = Database_ctor 0, calls = []\<rparr>"]
  by (simp add: Database_default_vtable_def Database_commit_def)

text \<open>
  C3, as the specification states it: once a guard is Done, nothing, a later
  \<open>begin()\<close> included, moves it back to Active or Fresh. \<open>begin()\<close> assigns
  \<open>STATE_READY\<close> without looking at the state: called on a Done guard it makes the
  guard Active again and calls \<open>beginTransaction()\<close> on the handle.
\<close>

theorem begin_after_done_counterexample:
  "DBTransaction_begin Database_default_vtable \<lparr>m_state = STATE_DONE\<rparr>
      \<lparr>obj = Database_ctor 0, calls = [CallBeginTransaction, CallCommit]\<rparr> =
     (False, \<lparr>m_state = STATE_READY\<rparr>,
      \<lparr>obj = Database_ctor 0,
       calls = [CallBeginTransaction, CallCommit, CallBeginTransaction]\<rparr>)"
  by (simp add: DBTransaction_begin_def db_beginTransaction_def invoke_def
      Database_default_vtable_def Database_beginTransaction_def)

text \<open>
  C3, amended: once a guard is Done, \<open>commit()\<close> returns false and changes neither the
  guard nor the handle, destroying the guard calls nothing on the handle, and no
  sequence of \<open>begin()\<close> and \<open>commit()\<close> calls moves the guard back to Fresh; a later
  \<open>begin()\<close> moves it to Active.
\<close>

theorem done_left_only_by_begin:
  assumes "m_state t = STATE_DONE"
  shows "DBTransaction_commit vt t h = (False, t, h)
     \<and> DBTransaction_dtor vt t h = h
     \<and> m_state (fst (DBTransaction_calls vt cs t h)) \<noteq> STATE_FRESH
     \<and> m_state (fst (snd (DBTransaction_begin vt t h))) = STATE_READY"
proof -
  from assms have "m_state t \<noteq> STATE_FRESH" by simp
  then have "m_state (fst (DBTransaction_calls vt cs t h)) \<noteq> STATE_FRESH"
    by (rule calls_never_fresh)
  with assms show ?thesis
    by (simp add: DBTransaction_commit_def DBTransaction_dtor_def begin_state)
qed

theorem done_left_only_by_begin_witness:
  "m_state \<lparr>m_state = STATE_DONE\<rparr> = STATE_DONE
   \<and> DBTransaction_commit Database_default_vtable \<lparr>m_state = STATE_DONE\<rparr>
        \<lparr>obj = Database_ctor 0, calls = []\<rparr> =
       (False, \<lparr>m_state = STATE_DONE\<rparr>, \<lparr>obj = Database_ctor 0, calls = []\<rparr>)
   \<and> DBTransaction_dtor Database_default_vtable \<lparr>m_state = STATE_DONE\<rparr>
        \<lparr>obj = Database_ctor 0, calls = []\<rparr> = \<lparr>obj = Database_ctor 0, calls = []\<rparr>
   \<and> m_state (fst (DBTransaction_calls Database_default_vtable [Commit, Begin, Commit]
        \<lparr>m_state = STATE_DONE\<rparr> \<lparr>obj = Database_ctor 0, calls = []\<rparr>)) \<noteq> STATE_FRESH
   \<and> m_state (fst (snd (DBTransaction_begin Database_default_vtable \<lparr>m_state = STATE_DONE\<rparr>
        \<lparr>obj = Database_ctor 0, calls = []\<rparr>))) = STATE_READY"
  using done_left_only_by_begin
    [of "\<lparr>m_state = STATE_DONE\<rparr>" Database_default_vtable
        "\<lparr>obj = Database_ctor 0, calls = []\<rparr>" "[Commit, Begin, Commit]"]
  by (simp add: DBTransaction_commit_def DBTransaction_begin_def DBTransaction_dtor_def
      db_commit_def db_beginTransaction_def invoke_def Database_default_vtable_def
      Database_commit_def Database_beginTransaction_def)

text \<open>
  C4: for a guard on which \<open>begin()\<close> was called (once or more) and \<open>commit()\<close>
  never, destroying the guard invokes the handle's \<open>rollback()\<close> exactly once: the
  destructor is one call of \<open>rollback()\<close> through the pointer, which runs the
  driver's \<open>rollback\<close> body once on the object the calls of \<open>begin()\<close> left, and
  the calls the guard made on the handle in its whole life are one
  \<open>beginTransaction()\<close> for each \<open>begin()\<close> and then that one \<open>rollback()\<close>.
\<close>

theorem abandoned_guard_rolls_back_once:
  assumes "Begin \<in> set cs" and "Commit \<notin> set cs"
  shows "DBTransaction_lifetime vt cs h =
           snd (db_rollback vt (snd (DBTransaction_calls vt cs DBTransaction_ctor h)))
         \<and> obj (DBTransaction_lifetime vt cs h) =
           snd (v_rollback vt (obj (snd (DBTransaction_calls vt cs DBTransaction_ctor h))))
         \<and> calls (DBTransaction_lifetime vt cs h) =
           calls h @ replicate (length cs) CallBeginTransaction @ [CallRollback]
         \<and> count_list (calls (DBTransaction_lifetime vt cs h)) CallRollback =
           count_list (calls h) CallRollback + 1"
proof -
  from assms(1) have ne: "cs \<noteq> []" by auto
  have st: "m_state (fst (DBTransaction_calls vt cs DBTransaction_ctor h)) = STATE_READY"
    using calls_only_begin [OF assms(2), of vt DBTransaction_ctor h] ne by simp
  have tr: "calls (snd (DBTransaction_calls vt cs DBTransaction_ctor h)) =
              calls h @ replicate (length cs) CallBeginTransaction"
    using calls_only_begin [OF assms(2), of vt DBTransaction_ctor h] by simp
  have a: "calls (DBTransaction_lifetime vt cs h) =
           calls h @ replicate (length cs) CallBeginTransaction @ [CallRollback]"
    by (simp add: DBTransaction_lifetime_def dtor_calls st tr)
  have b: "DBTransaction_lifetime vt cs h =
           snd (db_rollback vt (snd (DBTransaction_calls vt cs DBTransaction_ctor h)))"
    by (simp add: DBTransaction_lifetime_def DBTransaction_dtor_def st)
  have c: "obj (DBTransaction_lifetime vt cs h) =
           snd (v_rollback vt (obj (snd (DBTransaction_calls vt cs DBTransaction_ctor h))))"
    by (simp add: b db_rollback_def invoke_obj)
  have "count_list (replicate n CallBeginTransaction) CallRollback = 0" for n
    by (induction n) simp_all
  with a b c show ?thesis by simp
qed

theorem abandoned_guard_rolls_back_once_witness:
  "Begin \<in> set [Begin, Begin] \<and> Commit \<notin> set [Begin, Begin]
   \<and> DBTransaction_lifetime Database_default_vtable [Begin, Begin]
        \<lparr>obj = Database_ctor 0, calls = []\<rparr> =
       snd (db_rollback Database_default_vtable
         \<lparr>obj = Database_ctor 0, calls = [CallBeginTransaction, CallBeginTransaction]\<rparr>)
   \<and> obj (DBTransaction_lifetime Database_default_vtable [Begin, Begin]
        \<lparr>obj = Database_ctor 0, calls = []\<rparr>) = Database_ctor 0
   \<and> calls (DBTransaction_lifetime Database_default_vtable [Begin, Begin]
        \<lparr>obj = Database_ctor 0, calls = []\<rparr>) =
       [CallBeginTransaction, CallBeginTransaction, CallRollback]
   \<and> count_list (calls (DBTransaction_lifetime Database_default_vtable [Begin, Begin]
        \<lparr>obj = Database_ctor 0, calls = []\<rparr>)) CallRollback = 1"
  using abandoned_guard_rolls_back_once
    [of "[Begin, Begin]" Database_default_vtable "\<lparr>obj = Database_ctor 0, calls = []\<rparr>"]
  by (simp add: numeral_2_eq_2 DBTransaction_begin_def DBTransaction_ctor_def
      db_beginTransaction_def db_rollback_def invoke_def Database_default_vtable_def
      Database_beginTransaction_def Database_rollback_def)

text \<open>
  C5: \<open>begin()\<close> on a guard always moves the guard to the Active state
  (\<open>STATE_READY\<close>), whether or not the handle's \<open>beginTransaction()\<close> succeeds,
  and returns what \<open>beginTransaction()\<close> returned; \<open>beginTransaction()\<close> is the
  one call it makes on the handle.
\<close>

theorem begin_always_active:
  "m_state (fst (snd (DBTransaction_begin vt t h))) = STATE_READY
   \<and> fst (DBTransaction_begin vt t h) = fst (v_beginTransaction vt (obj h))
   \<and> obj (snd (snd (DBTransaction_begin vt t h))) = snd (v_beginTransaction vt (obj h))
   \<and> calls (snd (snd (DBTransaction_begin vt t h))) = calls h @ [CallBeginTransaction]"
  by (simp add: DBTransaction_begin_def db_beginTransaction_def invoke_def)

text \<open>
  C6: \<open>commit()\<close> called on a guard that is Fresh or already Done returns false and
  does nothing to the handle: no call is made on it (neither \<open>commit()\<close> nor
  \<open>rollback()\<close>) and its state is what it was; the guard is unchanged too.
\<close>

theorem commit_outside_active_is_noop:
  assumes "m_state t = STATE_FRESH \<or> m_state t = STATE_DONE"
  shows "DBTransaction_commit vt t h = (False, t, h)"
  using assms by (auto simp add: DBTransaction_commit_def)

theorem commit_outside_active_is_noop_witness:
  "(m_state DBTransaction_ctor = STATE_FRESH \<or> m_state DBTransaction_ctor = STATE_DONE)
   \<and> DBTransaction_commit Database_default_vtable DBTransaction_ctor
        \<lparr>obj = Database_ctor 0, calls = []\<rparr> =
       (False, DBTransaction_ctor, \<lparr>obj = Database_ctor 0, calls = []\<rparr>)"
  using commit_outside_active_is_noop
    [of DBTransaction_ctor Database_default_vtable "\<lparr>obj = Database_ctor 0, calls = []\<rparr>"]
  by (simp add: DBTransaction_ctor_def)

section \<open>The insert batcher\<close>

text \<open>
  C7: \<open>execute()\<close> on a batcher with zero accumulated rows issues no statement
  through the handle and returns true; the batcher and the handle are unchanged. The row
  count is zero right after \<open>setQuery\<close> and right after every \<open>execute()\<close>.
\<close>

theorem execute_without_rows:
  assumes "m_rows ins = 0"
  shows "DBInsert_execute vt ins h = (True, ins, h)
     \<and> m_rows (DBInsert_setQuery query ins) = 0
     \<and> m_rows (fst (snd (DBInsert_execute vt ins' h'))) = 0"
  using assms by (simp add: DBInsert_execute_def DBInsert_setQuery_def split: prod.splits)

theorem execute_without_rows_witness:
  "m_rows DBInsert_ctor = 0
   \<and> DBInsert_execute Database_default_vtable DBInsert_ctor
        \<lparr>obj = Database_ctor 0, calls = []\<rparr> =
       (True, DBInsert_ctor, \<lparr>obj = Database_ctor 0, calls = []\<rparr>)
   \<and> m_rows (DBInsert_setQuery ''INSERT INTO t (a) VALUES '' DBInsert_ctor) = 0
   \<and> m_rows (fst (snd (DBInsert_execute Database_default_vtable
        \<lparr>m_rows = 2, m_query = ''INSERT INTO t (a) VALUES '', m_buf = ''(1),(2)''\<rparr>
        \<lparr>obj = Database_ctor 0, calls = []\<rparr>))) = 0"
  using execute_without_rows
    [of DBInsert_ctor Database_default_vtable "\<lparr>obj = Database_ctor 0, calls = []\<rparr>"
        "''INSERT INTO t (a) VALUES ''"
        "\<lparr>m_rows = 2, m_query = ''INSERT INTO t (a) VALUES '', m_buf = ''(1),(2)''\<rparr>"
        "\<lparr>obj = Database_ctor 0, calls = []\<rparr>"]
  by (simp add: DBInsert_ctor_def)

section \<open>The default member functions of Database\<close>

text \<open>
  C2, as the specification states it: \<open>connect(host, user, pass, database, port,
  unixSocket)\<close> returns a boolean, false on failure, and on success marks the handle
  connected. \<open>connect\<close> is declared \<open>void\<close> with an empty body: the call returns no
  value and the handle is as it was, so that a newly constructed handle is still not
  connected after it.
\<close>

theorem connect_counterexample:
  "Database_connect ''localhost'' ''root'' ''secret'' ''otserv'' 3306 [] (Database_ctor 0) =
     ((), Database_ctor 0)
   \<and> \<not> isConnected
        (snd (Database_connect ''localhost'' ''root'' ''secret'' ''otserv'' 3306 []
           (Database_ctor 0)))"
  by (simp add: Database_connect_def Database_ctor_def isConnected_def)

text \<open>
  C2, amended: \<open>connect(host, user, pass, database, port, unixSocket)\<close> returns no
  value, and the default \<open>connect\<close> leaves the handle as it was, so that
  \<open>isConnected()\<close> returns afterwards what it returned before (false on a newly
  constructed handle); the handle is marked connected by \<open>setConnected(true)\<close>, after
  which \<open>isConnected()\<close> returns true.
\<close>

theorem connect_leaves_handle:
  "Database_connect host user pass db port unix_socket d = ((), d)
   \<and> isConnected (snd (Database_connect host user pass db port unix_socket d)) = isConnected d
   \<and> isConnected (Database_ctor u) = False
   \<and> isConnected (setConnected connected d) = connected"
  by (simp add: Database_connect_def Database_ctor_def isConnected_def setConnected_def)



text \<open>
  C10: the default \<open>escapeString\<close> and \<open>escapeBlob\<close> return the two-character
  string of two apostrophes for every input: the result is the same for any two inputs
  (and any two handles), so nothing of the input reaches the literal.
\<close>

theorem default_escape_constant:
  "fst (Database_escapeString s d) = [CHR 0x27, CHR 0x27]
   \<and> fst (Database_escapeBlob bs len d) = [CHR 0x27, CHR 0x27]
   \<and> fst (Database_escapeString s d) = fst (Database_escapeString s' d')
   \<and> fst (Database_escapeBlob bs len d) = fst (Database_escapeBlob bs' len' d')"
  by (simp add: Database_escapeString_def Database_escapeBlob_def)

end
